theory Spec2Isabelle
  imports Complex_Main
begin

section \<open>Tensors\<close>

text \<open>
  A one-dimensional float tensor is a list of reals: the arithmetic is the exact one,
  rounding is not modelled. The operations below are the elementwise operations of
  torch that \<open>baselines/ppo/agent.py\<close> uses, under their torch names. The two
  reductions of an empty tensor and the standard deviation of fewer than two elements
  are nan in torch; the reals have no nan, so that every theorem about them carries the
  hypothesis that excludes these inputs.
\<close>

type_synonym tensor = "real list"

definition t_sub :: "tensor \<Rightarrow> tensor \<Rightarrow> tensor" where
  "t_sub xs ys = map2 (\<lambda>x y. x - y) xs ys"

definition t_add :: "tensor \<Rightarrow> tensor \<Rightarrow> tensor" where
  "t_add xs ys = map2 (\<lambda>x y. x + y) xs ys"

definition t_mul :: "tensor \<Rightarrow> tensor \<Rightarrow> tensor" where
  "t_mul xs ys = map2 (\<lambda>x y. x * y) xs ys"

definition t_neg :: "tensor \<Rightarrow> tensor" where
  "t_neg xs = map uminus xs"

definition t_exp :: "tensor \<Rightarrow> tensor" where
  "t_exp xs = map exp xs"

definition clamp :: "real \<Rightarrow> real \<Rightarrow> real \<Rightarrow> real" where
  \<comment> \<open>torch.clamp on one element: the lower bound first, then the upper one.\<close>
  "clamp x lo hi = min (max x lo) hi"

definition t_clamp :: "tensor \<Rightarrow> real \<Rightarrow> real \<Rightarrow> tensor" where
  "t_clamp xs lo hi = map (\<lambda>x. clamp x lo hi) xs"

definition t_min :: "tensor \<Rightarrow> tensor \<Rightarrow> tensor" where
  "t_min xs ys = map2 min xs ys"

definition t_max :: "tensor \<Rightarrow> tensor \<Rightarrow> tensor" where
  "t_max xs ys = map2 max xs ys"

definition mse_loss_none :: "tensor \<Rightarrow> tensor \<Rightarrow> tensor" where
  \<comment> \<open>F.mse_loss(input, target, reduction='none')\<close>
  "mse_loss_none xs ys = map2 (\<lambda>x y. (x - y)\<^sup>2) xs ys"

definition t_mean :: "tensor \<Rightarrow> real" where
  "t_mean xs = sum_list xs / real (length xs)"

definition t_std :: "tensor \<Rightarrow> real" where
  \<comment> \<open>Tensor.std(): the sample standard deviation, with Bessel's correction.\<close>
  "t_std xs = sqrt (sum_list (map (\<lambda>x. (x - t_mean xs)\<^sup>2) xs) / (real (length xs) - 1))"

definition t_sub_scalar :: "tensor \<Rightarrow> real \<Rightarrow> tensor" where
  "t_sub_scalar xs c = map (\<lambda>x. x - c) xs"

definition t_div_scalar :: "tensor \<Rightarrow> real \<Rightarrow> tensor" where
  "t_div_scalar xs c = map (\<lambda>x. x / c) xs"

definition frac_outside :: "tensor \<Rightarrow> real \<Rightarrow> real \<Rightarrow> real" where
  \<comment> \<open>((ratio < lo) | (ratio > hi)).float().mean()\<close>
  "frac_outside xs lo hi = t_mean (map (\<lambda>x. if x < lo \<or> x > hi then 1 else 0) xs)"

definition ndimension_squeezed :: "'a list \<Rightarrow> nat" where
  \<comment> \<open>The number of dimensions of torch.cat(...).squeeze() over per-step scalars:
      squeeze drops every dimension of size one, so a single element leaves none.\<close>
  "ndimension_squeezed xs = (if length xs = 1 then 0 else 1)"

section \<open>Configuration, environment, errors\<close>

datatype error =
  IndexError | AttributeError | KeyError | ValueError | RuntimeError
  | AssertionError | UnboundLocalError

record config =
  nn_sizes :: "nat list"
  agent_std0 :: real
  agent_policy_lr :: real
  agent_value_lr :: real
  agent_use_lr_scheduler :: bool
  agent_gamma :: real
  agent_gae_lambda :: real
  agent_clip_range :: real
  agent_max_grad_norm :: real
  agent_standardize_adv :: bool
  train_batch_size :: int
  train_num_epochs :: int
  train_timestep :: int

text \<open>
  The kinds of gym action space. \<open>Discrete n\<close> has \<open>n\<close> actions, \<open>Box d\<close> is a continuous
  box of flat dimension \<open>d\<close>; the other two stand for every space that is neither.
\<close>

datatype space = Discrete nat | Box nat | MultiBinary nat | MultiDiscrete "nat list"

record env =
  observation_dim :: nat
  action_space :: space

type_synonym observation = "real list"
type_synonym action = "real list"

section \<open>Actor and Critic\<close>

datatype head = CategoricalHead nat nat | DiagGaussianHead nat nat real

text \<open>
  An actor is its trainable parameters and its action head. The attribute
  \<open>action_head\<close> is assigned in the two branches of the constructor only, so that it is
  \<open>None\<close> when neither ran.
\<close>

record actor =
  feature_layers :: "real list"
  action_head :: "head option"

text \<open>
  The distribution object a head returns, with the three methods the agent calls.
\<close>

record dist =
  entropy :: tensor
  sample :: "action list"
  log_prob :: "action list \<Rightarrow> tensor"

record step =
  s_observation :: observation
  s_action :: action
  s_reward :: real
  s_action_logprob :: real
  s_entropy :: real
  s_V :: real

record trajectory =
  steps :: "step list"
  last_observation :: observation
  reach_terminal :: bool

text \<open>One row of the flat per-timestep table the minibatches are drawn from.\<close>

record sample_row =
  observation :: observation
  old_action :: action
  old_logprob :: real
  old_entropy :: real
  old_V :: real
  old_Q :: real
  old_A :: real

record optimizer =
  lr :: real
  moments :: "real list"

text \<open>
  The collaborators that are not part of \<open>agent.py\<close> are parameters of the model: the
  forward functions of the two networks, the backward pass of each loss (the gradient
  with respect to that network's parameters), the clipping of a gradient to a maximal
  norm (returning the gradient and the norm), the Adam step (returning the new
  parameters and the new optimizer state), the learning rate of the linear schedule at
  a timestep, the return and advantage estimators, the explained variance, and the
  shuffled minibatches the data loader yields at its n-th iteration.
\<close>

record collaborators =
  head_forward :: "head \<Rightarrow> real list \<Rightarrow> observation list \<Rightarrow> dist"
  critic_forward :: "real list \<Rightarrow> observation list \<Rightarrow> tensor"
  policy_backward :: "config \<Rightarrow> actor \<Rightarrow> sample_row list \<Rightarrow> real list"
  value_backward :: "config \<Rightarrow> real list \<Rightarrow> sample_row list \<Rightarrow> real list"
  clip_grad_norm :: "real list \<Rightarrow> real \<Rightarrow> real list \<times> real"
  adam_step :: "optimizer \<Rightarrow> real list \<Rightarrow> real list \<Rightarrow> real list \<times> optimizer"
  linear_lr :: "config \<Rightarrow> int \<Rightarrow> real"
  bootstrapped_returns :: "real \<Rightarrow> trajectory \<Rightarrow> real \<Rightarrow> tensor"
  gae :: "real \<Rightarrow> real \<Rightarrow> trajectory \<Rightarrow> tensor \<Rightarrow> real \<Rightarrow> tensor"
  ev :: "tensor \<Rightarrow> tensor \<Rightarrow> real"
  dataloader :: "nat \<Rightarrow> int \<Rightarrow> sample_row list \<Rightarrow> sample_row list list"

definition Actor_init :: "config \<Rightarrow> env \<Rightarrow> real list \<Rightarrow> error + actor" where
  \<comment> \<open>\<open>w\<close> is the outcome of make_fc and ortho_init; \<open>config['nn.sizes'][-1]\<close> raises
      on an empty list.\<close>
  "Actor_init cfg e w =
     (case nn_sizes cfg of
        [] \<Rightarrow> Inl IndexError
      | _ # _ \<Rightarrow>
          (let feature_dim = last (nn_sizes cfg) in
           Inr \<lparr>feature_layers = w,
                action_head =
                  (case action_space e of
                     Discrete n \<Rightarrow> Some (CategoricalHead feature_dim n)
                   | Box d \<Rightarrow> Some (DiagGaussianHead feature_dim d (agent_std0 cfg))
                   | _ \<Rightarrow> None)\<rparr>))"

definition Actor_forward :: "collaborators \<Rightarrow> actor \<Rightarrow> observation list \<Rightarrow> error + dist" where
  \<comment> \<open>Reading the attribute \<open>action_head\<close> that was never assigned raises.\<close>
  "Actor_forward ext a x =
     (case action_head a of
        None \<Rightarrow> Inl AttributeError
      | Some h \<Rightarrow> Inr (head_forward ext h (feature_layers a) x))"

definition Critic_init :: "config \<Rightarrow> env \<Rightarrow> real list \<Rightarrow> error + real list" where
  \<comment> \<open>The critic is its parameters: the feature layers and the linear V head.\<close>
  "Critic_init cfg e w = (case nn_sizes cfg of [] \<Rightarrow> Inl IndexError | _ # _ \<Rightarrow> Inr w)"

section \<open>Agent\<close>

text \<open>
  The state of an agent. \<open>policy_lr_scheduler\<close> is the attribute the constructor
  assigns only when \<open>agent.use_lr_scheduler\<close> is set; it holds the timestep of the
  scheduler's last step.
\<close>

record agent =
  config :: config
  policy :: actor
  value_net :: "real list"
  total_timestep :: int
  policy_optimizer :: optimizer
  value_optimizer :: optimizer
  policy_lr_scheduler :: "int option"

definition Agent_init :: "config \<Rightarrow> env \<Rightarrow> real list \<Rightarrow> real list \<Rightarrow> error + agent" where
  "Agent_init cfg e w_policy w_value =
     (case Actor_init cfg e w_policy of
        Inl err \<Rightarrow> Inl err
      | Inr a \<Rightarrow>
          (case Critic_init cfg e w_value of
             Inl err \<Rightarrow> Inl err
           | Inr c \<Rightarrow>
               Inr \<lparr>config = cfg, policy = a, value_net = c,
                    total_timestep = 0,
                    policy_optimizer = \<lparr>lr = agent_policy_lr cfg, moments = []\<rparr>,
                    value_optimizer = \<lparr>lr = agent_value_lr cfg, moments = []\<rparr>,
                    policy_lr_scheduler =
                      (if agent_use_lr_scheduler cfg then Some 0 else None)\<rparr>))"

text \<open>The values of the mapping that \<open>choose_action\<close> returns.\<close>

datatype cval = VDist dist | VTensor tensor | VActions "action list"

definition choose_action ::
  "collaborators \<Rightarrow> agent \<Rightarrow> observation list \<Rightarrow> (error + (string \<times> cval) list) \<times> agent" where
  "choose_action ext ag obs =
     (case Actor_forward ext (policy ag) obs of
        Inl err \<Rightarrow> (Inl err, ag)
      | Inr action_dist \<Rightarrow>
          (let act = sample action_dist;
               V = critic_forward ext (value_net ag) obs
           in (Inr [(''action_dist'', VDist action_dist),
                    (''entropy'', VTensor (entropy action_dist)),
                    (''action'', VActions act),
                    (''raw_action'', VActions act),
                    (''action_logprob'', VTensor (log_prob action_dist act)),
                    (''V'', VTensor V)], ag)))"

subsection \<open>One update on a minibatch\<close>

definition ratio_of :: "tensor \<Rightarrow> tensor \<Rightarrow> tensor" where
  "ratio_of logprobs old_logprobs = t_exp (t_sub logprobs old_logprobs)"

definition policy_loss_of :: "real \<Rightarrow> tensor \<Rightarrow> tensor \<Rightarrow> real" where
  "policy_loss_of eps ratio old_As =
     (let policy_loss = t_neg (t_min (t_mul ratio old_As)
                                     (t_mul (t_clamp ratio (1 - eps) (1 + eps)) old_As))
      in t_mean policy_loss)"

definition value_loss_of :: "real \<Rightarrow> tensor \<Rightarrow> tensor \<Rightarrow> tensor \<Rightarrow> real" where
  "value_loss_of eps Vs old_Vs old_Qs =
     (let clipped_Vs = t_add old_Vs (t_clamp (t_sub Vs old_Vs) (- eps) eps);
          value_loss = t_max (mse_loss_none Vs old_Qs) (mse_loss_none clipped_Vs old_Qs)
      in t_mean value_loss)"

definition step_policy ::
  "collaborators \<Rightarrow> agent \<Rightarrow> sample_row list \<Rightarrow> (error + real) \<times> agent" where
  \<comment> \<open>zero_grad, backward, clip_grad_norm_, the scheduler's step, the optimizer's step\<close>
  "step_policy ext ag data =
     (let (grad, policy_grad_norm) =
            clip_grad_norm ext (policy_backward ext (config ag) (policy ag) data)
                               (agent_max_grad_norm (config ag))
      in case (if agent_use_lr_scheduler (config ag)
               then (case policy_lr_scheduler ag of
                       None \<Rightarrow> Inl AttributeError
                     | Some _ \<Rightarrow>
                         Inr (ag\<lparr>policy_lr_scheduler := Some (total_timestep ag),
                                 policy_optimizer := (policy_optimizer ag)
                                   \<lparr>lr := linear_lr ext (config ag) (total_timestep ag)\<rparr>\<rparr>))
               else Inr ag) of
           Inl err \<Rightarrow> (Inl err, ag)
         | Inr ag1 \<Rightarrow>
             (let (w, opt) = adam_step ext (policy_optimizer ag1)
                                           (feature_layers (policy ag1)) grad
              in (Inr policy_grad_norm,
                  ag1\<lparr>policy := (policy ag1)\<lparr>feature_layers := w\<rparr>,
                      policy_optimizer := opt\<rparr>)))"

definition step_value :: "collaborators \<Rightarrow> agent \<Rightarrow> sample_row list \<Rightarrow> real \<times> agent" where
  "step_value ext ag data =
     (let (grad, value_grad_norm) =
            clip_grad_norm ext (value_backward ext (config ag) (value_net ag) data)
                               (agent_max_grad_norm (config ag));
          (w, opt) = adam_step ext (value_optimizer ag) (value_net ag) grad
      in (value_grad_norm, ag\<lparr>value_net := w, value_optimizer := opt\<rparr>))"

text \<open>The mapping \<open>learn_one_update\<close> returns has eight fixed keys: a record.\<close>

record update_out =
  policy_grad_norm :: real
  value_grad_norm :: real
  policy_loss :: real
  policy_entropy :: real
  value_loss :: real
  explained_variance :: real
  approx_kl :: real
  clip_frac :: real

definition learn_one_update ::
  "collaborators \<Rightarrow> agent \<Rightarrow> sample_row list \<Rightarrow> (error + update_out) \<times> agent" where
  "learn_one_update ext ag data =
     (let observations = map observation data;
          old_actions = map old_action data;
          old_logprobs = map old_logprob data;
          old_Vs = map old_V data;
          old_Qs = map old_Q data;
          old_As = map old_A data
      in case choose_action ext ag observations of
           (Inl err, ag0) \<Rightarrow> (Inl err, ag0)
         | (Inr out, ag0) \<Rightarrow>
             (case (map_of out ''action_dist'', map_of out ''entropy'', map_of out ''V'') of
                (Some (VDist action_dist), Some (VTensor entropies), Some (VTensor Vs)) \<Rightarrow>
                  (let logprobs = log_prob action_dist old_actions;
                       ratio = ratio_of logprobs old_logprobs;
                       eps = agent_clip_range (config ag0);
                       p_loss = policy_loss_of eps ratio old_As
                   in case step_policy ext ag0 data of
                        (Inl err, ag1) \<Rightarrow> (Inl err, ag1)
                      | (Inr p_norm, ag1) \<Rightarrow>
                          (let v_loss = value_loss_of eps Vs old_Vs old_Qs;
                               (v_norm, ag2) = step_value ext ag1 data
                           in (Inr \<lparr>policy_grad_norm = p_norm,
                                    value_grad_norm = v_norm,
                                    policy_loss = p_loss,
                                    policy_entropy = t_mean entropies,
                                    value_loss = v_loss,
                                    explained_variance = ev ext old_Qs Vs,
                                    approx_kl = t_mean (t_sub old_logprobs logprobs),
                                    clip_frac = frac_outside ratio (1 - eps) (1 + eps)\<rparr>,
                               ag2)))
              | _ \<Rightarrow> (Inl KeyError, ag0)))"

subsection \<open>The epoch driver\<close>

definition Dataset ::
  "trajectory list \<Rightarrow> tensor \<Rightarrow> tensor \<Rightarrow> tensor \<Rightarrow> tensor \<Rightarrow> tensor \<Rightarrow> sample_row list" where
  \<comment> \<open>Modelled from the spec: \<open>baselines/ppo/dataset.py\<close> is not part of the sources.
      Section 3 describes one flat table indexed by the global timestep across all
      trajectories of D, in trajectory order, then within-trajectory order.\<close>
  "Dataset D logprobs entropies Vs Qs As =
     map (\<lambda>(st, lp, en, v, q, a).
            \<lparr>observation = s_observation st, old_action = s_action st,
             old_logprob = lp, old_entropy = en, old_V = v, old_Q = q, old_A = a\<rparr>)
         (zip (concat (map steps D))
              (zip logprobs (zip entropies (zip Vs (zip Qs As)))))"

definition standardize :: "tensor \<Rightarrow> tensor" where
  \<comment> \<open>\<open>(As - As.mean())/(As.std() + 1e-8)\<close>\<close>
  "standardize As = t_div_scalar (t_sub_scalar As (t_mean As)) (t_std As + 1 / 10 ^ 8)"

definition raw_advantages :: "collaborators \<Rightarrow> agent \<Rightarrow> trajectory list \<Rightarrow> tensor" where
  \<comment> \<open>The advantages of a batch, estimated for each trajectory with its own values and
      last value, then concatenated in trajectory order.\<close>
  "raw_advantages ext ag D =
     (let Vs = map (\<lambda>traj. map s_V (steps traj)) D;
          last_Vs = critic_forward ext (value_net ag) (map last_observation D);
          As = map (\<lambda>(traj, V, last_V).
                      gae ext (agent_gamma (config ag)) (agent_gae_lambda (config ag))
                          traj V last_V)
                   (zip D (zip Vs last_Vs))
      in concat As)"

definition flat_advantages :: "collaborators \<Rightarrow> agent \<Rightarrow> trajectory list \<Rightarrow> tensor" where
  \<comment> \<open>The advantages as \<open>learn\<close> hands them to the dataset: standardized when the
      configuration says so.\<close>
  "flat_advantages ext ag D =
     (let As = raw_advantages ext ag D
      in if agent_standardize_adv (config ag) then standardize As else As)"

definition flat_metrics ::
  "collaborators \<Rightarrow> agent \<Rightarrow> trajectory list \<Rightarrow> tensor \<times> tensor \<times> tensor \<times> tensor \<times> tensor" where
  \<comment> \<open>The five flat per-timestep tensors \<open>learn\<close> computes before its assertion.\<close>
  "flat_metrics ext ag D =
     (let logprobs = map (\<lambda>traj. map s_action_logprob (steps traj)) D;
          entropies = map (\<lambda>traj. map s_entropy (steps traj)) D;
          Vs = map (\<lambda>traj. map s_V (steps traj)) D;
          last_Vs = critic_forward ext (value_net ag) (map last_observation D);
          Qs = map (\<lambda>(traj, last_V).
                      bootstrapped_returns ext (agent_gamma (config ag)) traj last_V)
                   (zip D last_Vs);
          logprobs = concat logprobs;
          entropies = concat entropies;
          Vs = concat Vs;
          Qs = concat Qs;
          As = flat_advantages ext ag D
      in (logprobs, entropies, Vs, Qs, As))"

definition flat_table :: "collaborators \<Rightarrow> agent \<Rightarrow> trajectory list \<Rightarrow> sample_row list" where
  \<comment> \<open>The dataset \<open>learn\<close> builds from a batch.\<close>
  "flat_table ext ag D =
     (let (logprobs, entropies, Vs, Qs, As) = flat_metrics ext ag D
      in Dataset D logprobs entropies Vs Qs As)"

fun run_minibatches ::
  "collaborators \<Rightarrow> agent \<Rightarrow> sample_row list list \<Rightarrow> (error + update_out list) \<times> agent" where
  \<comment> \<open>\<open>[self.learn_one_update(data) for data in dataloader]\<close>: an exception leaves the
      comprehension with the state the updates so far have produced.\<close>
  "run_minibatches ext ag [] = (Inr [], ag)"
| "run_minibatches ext ag (data # rest) =
     (case learn_one_update ext ag data of
        (Inl err, ag1) \<Rightarrow> (Inl err, ag1)
      | (Inr item, ag1) \<Rightarrow>
          (case run_minibatches ext ag1 rest of
             (Inl err, ag2) \<Rightarrow> (Inl err, ag2)
           | (Inr items, ag2) \<Rightarrow> (Inr (item # items), ag2)))"

fun epoch_loop ::
  "collaborators \<Rightarrow> sample_row list \<Rightarrow> agent \<Rightarrow> update_out list option \<Rightarrow> nat list
   \<Rightarrow> (error + update_out list option) \<times> agent" where
  \<comment> \<open>The loop over \<open>range(num_epochs)\<close>; the variable \<open>logs\<close> is \<open>None\<close> as long as
      it is unbound, and every epoch assigns it anew.\<close>
  "epoch_loop ext dataset ag logs [] = (Inr logs, ag)"
| "epoch_loop ext dataset ag logs (epoch # rest) =
     (case run_minibatches ext ag
             (dataloader ext epoch (train_batch_size (config ag)) dataset) of
        (Inl err, ag1) \<Rightarrow> (Inl err, ag1)
      | (Inr logs1, ag1) \<Rightarrow> epoch_loop ext dataset ag1 (Some logs1) rest)"

definition np_mean :: "real list \<Rightarrow> real" where
  "np_mean xs = sum_list xs / real (length xs)"

text \<open>
  The values of the mapping \<open>learn\<close> returns: a finite number, the nan that \<open>np.mean\<close>
  returns for an empty list, or the list of learning rates that the scheduler's
  \<open>get_lr\<close> returns.
\<close>

datatype dval = Num real | NaN | Lrs "real list"

definition mean_entry :: "real list \<Rightarrow> dval" where
  \<comment> \<open>\<open>np.mean\<close> of a list of numbers, as the entry of the mapping\<close>
  "mean_entry xs = (if xs = [] then NaN else Num (np_mean xs))"

definition learn ::
  "collaborators \<Rightarrow> agent \<Rightarrow> trajectory list \<Rightarrow> (error + (string \<times> dval) list) \<times> agent" where
  "learn ext ag D =
     (if list_ex (\<lambda>traj. steps traj = []) D then (Inl RuntimeError, ag)
      else if D = [] then (Inl ValueError, ag)
      else
        (let (logprobs, entropies, Vs, Qs, As) = flat_metrics ext ag D
         in if \<not> (ndimension_squeezed logprobs = 1 \<and> ndimension_squeezed entropies = 1
                   \<and> ndimension_squeezed Vs = 1)
            then (Inl AssertionError, ag)
            else if train_batch_size (config ag) \<le> 0 then (Inl ValueError, ag)
            else
              (let dataset = Dataset D logprobs entropies Vs Qs As
               in case epoch_loop ext dataset ag None
                         [0 ..< nat (train_num_epochs (config ag))] of
                    (Inl err, ag1) \<Rightarrow> (Inl err, ag1)
                  | (Inr logs, ag1) \<Rightarrow>
                      (let ag2 = ag1\<lparr>total_timestep :=
                                        total_timestep ag1
                                        + sum_list (map (\<lambda>traj. int (length (steps traj))) D)\<rparr>
                       in case (if agent_use_lr_scheduler (config ag2)
                                then (case policy_lr_scheduler ag2 of
                                        None \<Rightarrow> Inl AttributeError
                                      | Some t \<Rightarrow>
                                          Inr [(''current_lr'',
                                                Lrs [linear_lr ext (config ag2) t])])
                                else Inr []) of
                            Inl err \<Rightarrow> (Inl err, ag2)
                          | Inr out \<Rightarrow>
                              (case logs of
                                 None \<Rightarrow> (Inl UnboundLocalError, ag2)
                               | Some items \<Rightarrow>
                                   (Inr (out @
                                     [(''policy_grad_norm'',
                                         mean_entry (map policy_grad_norm items)),
                                      (''value_grad_norm'',
                                         mean_entry (map value_grad_norm items)),
                                      (''policy_loss'',
                                         mean_entry (map policy_loss items)),
                                      (''policy_entropy'',
                                         mean_entry (map policy_entropy items)),
                                      (''value_loss'',
                                         mean_entry (map value_loss items)),
                                      (''explained_variance'',
                                         mean_entry (map explained_variance items)),
                                      (''approx_kl'',
                                         mean_entry (map approx_kl items)),
                                      (''clip_frac'',
                                         mean_entry (map clip_frac items))]),
                                    ag2))))))"

text \<open>A sequence of calls of \<open>learn\<close>, one batch after the other, with every result.\<close>

fun learn_calls ::
  "collaborators \<Rightarrow> agent \<Rightarrow> trajectory list list
   \<Rightarrow> (error + (string \<times> dval) list) list \<times> agent" where
  "learn_calls ext ag [] = ([], ag)"
| "learn_calls ext ag (D # Ds) =
     (let (r, ag1) = learn ext ag D;
          (rs, ag2) = learn_calls ext ag1 Ds
      in (r # rs, ag2))"

text \<open>
  The claim about the aggregation speaks of every invocation of the update step in a
  call of \<open>learn\<close>. \<open>every_invocation\<close> follows these words: it runs the same epochs
  and collects the diagnostics of each minibatch of each epoch.
\<close>

fun every_invocation ::
  "collaborators \<Rightarrow> sample_row list \<Rightarrow> agent \<Rightarrow> nat list \<Rightarrow> update_out list" where
  "every_invocation ext dataset ag [] = []"
| "every_invocation ext dataset ag (epoch # rest) =
     (case run_minibatches ext ag
             (dataloader ext epoch (train_batch_size (config ag)) dataset) of
        (Inl err, ag1) \<Rightarrow> []
      | (Inr logs1, ag1) \<Rightarrow> logs1 @ every_invocation ext dataset ag1 rest)"

subsection \<open>Conditions on the inputs\<close>

text \<open>
  An agent is well formed when its actor has an action head and, if the configuration
  asks for a learning-rate schedule, the scheduler exists: this is what the constructor
  produces for a discrete or a box action space. A batch is accepted by \<open>learn\<close> when
  it is not empty, no trajectory in it is empty, and it does not consist of a single
  timestep (which the squeeze would turn into a tensor without dimension).
\<close>

definition wf_agent :: "agent \<Rightarrow> bool" where
  "wf_agent ag = (action_head (policy ag) \<noteq> None \<and>
     (if agent_use_lr_scheduler (config ag) then policy_lr_scheduler ag \<noteq> None else True))"

definition batch_len :: "trajectory list \<Rightarrow> int" where
  "batch_len D = sum_list (map (\<lambda>traj. int (length (steps traj))) D)"

definition batch_ok :: "trajectory list \<Rightarrow> bool" where
  "batch_ok D = (D \<noteq> [] \<and> \<not> list_ex (\<lambda>traj. steps traj = []) D \<and> batch_len D \<noteq> 1)"

text \<open>The keys of the diagnostics of one update, in the order \<open>learn\<close> writes them.\<close>

definition update_keys :: "string list" where
  "update_keys = [''policy_grad_norm'', ''value_grad_norm'', ''policy_loss'', ''policy_entropy'',
     ''value_loss'', ''explained_variance'', ''approx_kl'', ''clip_frac'']"

section \<open>A concrete instance\<close>

text \<open>
  A small instance of the collaborators, on which the model runs: a categorical policy
  with a single action (log-probability and entropy 0), a critic that predicts the sum
  of its parameters, losses whose gradient is the parameter vector, the sum of absolute
  values as gradient norm with no clipping, plain gradient descent for the optimizer's
  step, a learning rate that decays linearly to zero at \<open>train.timestep\<close>, discounted
  returns seeded with the last value, advantages as returns minus values, a constant
  explained variance, and a data loader that cuts the table into consecutive batches
  (the identity is one of the orders a shuffle may produce).
\<close>

fun discounted :: "real \<Rightarrow> real list \<Rightarrow> real \<Rightarrow> real list" where
  "discounted g [] last_V = []"
| "discounted g (r # rs) last_V =
     (r + g * (case discounted g rs last_V of [] \<Rightarrow> last_V | q # _ \<Rightarrow> q))
     # discounted g rs last_V"

fun batches :: "nat \<Rightarrow> nat \<Rightarrow> 'a list \<Rightarrow> 'a list list" where
  \<comment> \<open>at most \<open>fuel\<close> consecutive batches of \<open>n\<close> rows\<close>
  "batches 0 n xs = []"
| "batches (Suc fuel) n xs =
     (if n = 0 \<or> xs = [] then [] else take n xs # batches fuel n (drop n xs))"

definition demo_ext :: collaborators where
  "demo_ext =
     \<lparr>head_forward = (\<lambda>h w obs.
        \<lparr>entropy = map (\<lambda>_. 0) obs, sample = map (\<lambda>_. [0]) obs,
         log_prob = (\<lambda>acts. map (\<lambda>_. 0) acts)\<rparr>),
      critic_forward = (\<lambda>w obs. map (\<lambda>_. sum_list w) obs),
      policy_backward = (\<lambda>cfg a data. feature_layers a),
      value_backward = (\<lambda>cfg w data. w),
      clip_grad_norm = (\<lambda>g max_norm. (g, sum_list (map abs g))),
      adam_step = (\<lambda>opt w g. (map2 (\<lambda>x gx. x - lr opt * gx) w g, opt)),
      linear_lr = (\<lambda>cfg t. agent_policy_lr cfg
                             * max 0 (1 - real_of_int t / real_of_int (train_timestep cfg))),
      bootstrapped_returns = (\<lambda>g traj last_V.
        discounted g (map s_reward (steps traj)) (if reach_terminal traj then 0 else last_V)),
      gae = (\<lambda>g l traj V last_V.
        t_sub (discounted g (map s_reward (steps traj))
                 (if reach_terminal traj then 0 else last_V)) V),
      ev = (\<lambda>y_true y_pred. 0),
      dataloader = (\<lambda>epoch n rows. batches (length rows) (nat n) rows)\<rparr>"

definition demo_config :: config where
  "demo_config =
     \<lparr>nn_sizes = [64, 64], agent_std0 = 1 / 2, agent_policy_lr = 1 / 2,
      agent_value_lr = 1 / 2, agent_use_lr_scheduler = False, agent_gamma = 1,
      agent_gae_lambda = 1, agent_clip_range = 1 / 5, agent_max_grad_norm = 1 / 2,
      agent_standardize_adv = False, train_batch_size = 2, train_num_epochs = 2,
      train_timestep = 1000\<rparr>"

definition demo_env :: env where
  "demo_env = \<lparr>observation_dim = 4, action_space = Discrete 2\<rparr>"

definition demo_agent :: agent where
  "demo_agent =
     \<lparr>config = demo_config,
      policy = \<lparr>feature_layers = [1], action_head = Some (CategoricalHead 64 2)\<rparr>,
      value_net = [0], total_timestep = 0,
      policy_optimizer = \<lparr>lr = 1 / 2, moments = []\<rparr>,
      value_optimizer = \<lparr>lr = 1 / 2, moments = []\<rparr>,
      policy_lr_scheduler = None\<rparr>"

definition demo_step :: "real \<Rightarrow> step" where
  "demo_step r =
     \<lparr>s_observation = [0, 0, 0, 0], s_action = [0], s_reward = r,
      s_action_logprob = 0, s_entropy = 0, s_V = 0\<rparr>"

definition demo_traj :: trajectory where
  "demo_traj =
     \<lparr>steps = [demo_step 1, demo_step 1], last_observation = [0, 0, 0, 0],
      reach_terminal = True\<rparr>"

definition demo_row :: "real \<Rightarrow> sample_row" where
  "demo_row a =
     \<lparr>observation = [0, 0, 0, 0], old_action = [0], old_logprob = 0, old_entropy = 0,
      old_V = 0, old_Q = 1, old_A = a\<rparr>"

section \<open>Basic facts\<close>

lemmas tensor_defs = t_sub_def t_add_def t_mul_def t_neg_def t_exp_def clamp_def t_clamp_def
  t_min_def t_max_def mse_loss_none_def t_mean_def t_sub_scalar_def t_div_scalar_def
  frac_outside_def ndimension_squeezed_def np_mean_def mean_entry_def

lemmas model_defs = Actor_forward_def choose_action_def ratio_of_def policy_loss_of_def
  value_loss_of_def step_policy_def step_value_def learn_one_update_def Dataset_def
  raw_advantages_def flat_advantages_def flat_metrics_def flat_table_def learn_def

lemmas demo_defs = demo_ext_def demo_config_def demo_env_def demo_agent_def demo_step_def
  demo_traj_def demo_row_def

lemma policy_loss_sum:
  assumes "length logprobs = length data"
  shows "sum_list (t_neg (t_min (t_mul (ratio_of logprobs (map old_logprob data)) (map old_A data))
            (t_mul (t_clamp (ratio_of logprobs (map old_logprob data)) lo hi) (map old_A data))))
         = - sum_list (map (\<lambda>(lp, row).
               min (exp (lp - old_logprob row) * old_A row)
                   (clamp (exp (lp - old_logprob row)) lo hi * old_A row))
             (zip logprobs data))"
  using assms
  by (induction logprobs data rule: list_induct2)
     (simp_all add: t_neg_def t_min_def t_mul_def ratio_of_def t_exp_def t_sub_def t_clamp_def)

lemma policy_loss_length:
  assumes "length logprobs = length data"
  shows "length (t_neg (t_min (t_mul (ratio_of logprobs (map old_logprob data)) (map old_A data))
            (t_mul (t_clamp (ratio_of logprobs (map old_logprob data)) lo hi) (map old_A data))))
         = length data"
  using assms
  by (simp add: t_neg_def t_min_def t_mul_def ratio_of_def t_exp_def t_sub_def t_clamp_def)

lemma policy_loss_of_rows:
  assumes "length logprobs = length data"
  shows "policy_loss_of eps (ratio_of logprobs (map old_logprob data)) (map old_A data)
         = - (sum_list (map (\<lambda>(lp, row).
               min (exp (lp - old_logprob row) * old_A row)
                   (clamp (exp (lp - old_logprob row)) (1 - eps) (1 + eps) * old_A row))
             (zip logprobs data)) / real (length data))"
  unfolding policy_loss_of_def Let_def t_mean_def
  by (simp only: policy_loss_sum [OF assms] policy_loss_length [OF assms])

lemma value_loss_sum:
  assumes "length Vs = length data"
  shows "sum_list (t_max (mse_loss_none Vs (map old_Q data))
            (mse_loss_none (t_add (map old_V data) (t_clamp (t_sub Vs (map old_V data)) lo hi))
               (map old_Q data)))
         = sum_list (map (\<lambda>(v, row).
               max ((v - old_Q row)\<^sup>2) ((clamp (v - old_V row) lo hi + old_V row - old_Q row)\<^sup>2))
             (zip Vs data))"
  using assms
  by (induction Vs data rule: list_induct2)
     (simp_all add: t_max_def mse_loss_none_def t_add_def t_sub_def t_clamp_def add.commute)

lemma value_loss_length:
  assumes "length Vs = length data"
  shows "length (t_max (mse_loss_none Vs (map old_Q data))
            (mse_loss_none (t_add (map old_V data) (t_clamp (t_sub Vs (map old_V data)) lo hi))
               (map old_Q data))) = length data"
  using assms
  by (simp add: t_max_def mse_loss_none_def t_add_def t_sub_def t_clamp_def)

lemma value_loss_of_rows:
  assumes "length Vs = length data"
  shows "value_loss_of eps Vs (map old_V data) (map old_Q data)
         = sum_list (map (\<lambda>(v, row).
               max ((v - old_Q row)\<^sup>2) ((clamp (v - old_V row) (- eps) eps + old_V row - old_Q row)\<^sup>2))
             (zip Vs data)) / real (length data)"
  unfolding value_loss_of_def Let_def t_mean_def
  by (simp only: value_loss_sum [OF assms] value_loss_length [OF assms])

lemma choose_action_frame: "snd (choose_action ext ag obs) = ag"
  by (simp add: choose_action_def Let_def split: sum.splits)

lemma choose_action_head:
  assumes "action_head (policy ag) = Some h"
  shows "fst (choose_action ext ag obs) =
           (let action_dist = head_forward ext h (feature_layers (policy ag)) obs in
            Inr [(''action_dist'', VDist action_dist),
                 (''entropy'', VTensor (entropy action_dist)),
                 (''action'', VActions (sample action_dist)),
                 (''raw_action'', VActions (sample action_dist)),
                 (''action_logprob'', VTensor (log_prob action_dist (sample action_dist))),
                 (''V'', VTensor (critic_forward ext (value_net ag) obs))])"
  using assms by (simp add: choose_action_def Actor_forward_def Let_def)

lemma step_policy_wf:
  assumes "wf_agent ag"
  shows "\<exists>n ag1. step_policy ext ag data = (Inr n, ag1) \<and> wf_agent ag1
           \<and> config ag1 = config ag \<and> total_timestep ag1 = total_timestep ag
           \<and> value_net ag1 = value_net ag \<and> value_optimizer ag1 = value_optimizer ag
           \<and> n = snd (clip_grad_norm ext (policy_backward ext (config ag) (policy ag) data)
                        (agent_max_grad_norm (config ag)))"
  using assms
  by (auto simp: step_policy_def wf_agent_def Let_def split: prod.splits option.splits)

lemma step_value_wf:
  assumes "wf_agent ag" and "step_value ext ag data = (n, ag1)"
  shows "wf_agent ag1 \<and> config ag1 = config ag \<and> total_timestep ag1 = total_timestep ag
         \<and> n = snd (clip_grad_norm ext (value_backward ext (config ag) (value_net ag) data)
                        (agent_max_grad_norm (config ag)))"
  using assms
  by (auto simp: step_value_def wf_agent_def Let_def split: prod.splits option.splits)

lemma learn_one_update_wf:
  fixes ext :: collaborators and data :: "sample_row list"
  assumes wf: "wf_agent ag" and h: "action_head (policy ag) = Some h"
  defines "d \<equiv> head_forward ext h (feature_layers (policy ag)) (map observation data)"
  defines "Vs \<equiv> critic_forward ext (value_net ag) (map observation data)"
  defines "eps \<equiv> agent_clip_range (config ag)"
  defines "ratio \<equiv> ratio_of (log_prob d (map old_action data)) (map old_logprob data)"
  shows "\<exists>out ag'. learn_one_update ext ag data = (Inr out, ag') \<and> wf_agent ag'
           \<and> config ag' = config ag \<and> total_timestep ag' = total_timestep ag
           \<and> policy_loss out = policy_loss_of eps ratio (map old_A data)
           \<and> value_loss out = value_loss_of eps Vs (map old_V data) (map old_Q data)
           \<and> policy_entropy out = t_mean (entropy d)
           \<and> explained_variance out = ev ext (map old_Q data) Vs
           \<and> approx_kl out = t_mean (t_sub (map old_logprob data) (log_prob d (map old_action data)))
           \<and> clip_frac out = frac_outside ratio (1 - eps) (1 + eps)
           \<and> policy_grad_norm out =
                snd (clip_grad_norm ext (policy_backward ext (config ag) (policy ag) data)
                       (agent_max_grad_norm (config ag)))"
proof -
  obtain n ag1 where sp: "step_policy ext ag data = (Inr n, ag1)" and wf1: "wf_agent ag1"
    and c1: "config ag1 = config ag" and t1: "total_timestep ag1 = total_timestep ag"
    and n: "n = snd (clip_grad_norm ext (policy_backward ext (config ag) (policy ag) data)
                        (agent_max_grad_norm (config ag)))"
    using step_policy_wf [OF wf, of ext data] by blast
  obtain m ag2 where sv: "step_value ext ag1 data = (m, ag2)"
    by (cases "step_value ext ag1 data")
  from step_value_wf [OF wf1 sv] have wf2: "wf_agent ag2" and c2: "config ag2 = config ag1"
    and t2: "total_timestep ag2 = total_timestep ag1" by simp_all
  have "learn_one_update ext ag data =
          (Inr \<lparr>policy_grad_norm = n, value_grad_norm = m,
                policy_loss = policy_loss_of eps ratio (map old_A data),
                policy_entropy = t_mean (entropy d),
                value_loss = value_loss_of eps Vs (map old_V data) (map old_Q data),
                explained_variance = ev ext (map old_Q data) Vs,
                approx_kl = t_mean (t_sub (map old_logprob data) (log_prob d (map old_action data))),
                clip_frac = frac_outside ratio (1 - eps) (1 + eps)\<rparr>, ag2)"
    using h sp sv
    by (simp add: learn_one_update_def choose_action_def Actor_forward_def Let_def
          d_def Vs_def eps_def ratio_def)
  with wf2 c1 c2 t1 t2 n show ?thesis by simp
qed

lemma step_policy_timestep: "total_timestep (snd (step_policy ext ag data)) = total_timestep ag"
  by (simp add: step_policy_def Let_def split: prod.splits option.splits)

lemma step_value_timestep: "total_timestep (snd (step_value ext ag data)) = total_timestep ag"
  by (simp add: step_value_def Let_def split: prod.splits)

lemma learn_one_update_timestep:
  "total_timestep (snd (learn_one_update ext ag data)) = total_timestep ag"
proof (cases "action_head (policy ag)")
  case None
  then show ?thesis
    by (simp add: learn_one_update_def choose_action_def Actor_forward_def Let_def)
next
  case (Some h)
  obtain r ag1 where sp: "step_policy ext ag data = (r, ag1)"
    by (cases "step_policy ext ag data")
  obtain m ag2 where sv: "step_value ext ag1 data = (m, ag2)"
    by (cases "step_value ext ag1 data")
  from sp have t1: "total_timestep ag1 = total_timestep ag"
    using step_policy_timestep [of ext ag data] by simp
  from sv have t2: "total_timestep ag2 = total_timestep ag1"
    using step_value_timestep [of ext ag1 data] by simp
  show ?thesis
    using Some sp sv t1 t2
    by (cases r)
       (simp_all add: learn_one_update_def choose_action_def Actor_forward_def Let_def)
qed

lemma run_minibatches_timestep:
  "total_timestep (snd (run_minibatches ext ag mbs)) = total_timestep ag"
proof (induction mbs arbitrary: ag)
  case Nil
  show ?case by simp
next
  case (Cons data rest)
  obtain r ag1 where l: "learn_one_update ext ag data = (r, ag1)"
    by (cases "learn_one_update ext ag data")
  then have t1: "total_timestep ag1 = total_timestep ag"
    using learn_one_update_timestep [of ext ag data] by simp
  show ?case
    using l t1 Cons.IH [of ag1]
    by (cases r) (auto split: prod.splits sum.splits)
qed

lemma epoch_loop_timestep:
  "total_timestep (snd (epoch_loop ext dataset ag logs epochs)) = total_timestep ag"
proof (induction epochs arbitrary: ag logs)
  case Nil
  show ?case by simp
next
  case (Cons epoch rest)
  obtain r ag1 where l: "run_minibatches ext ag
      (dataloader ext epoch (train_batch_size (config ag)) dataset) = (r, ag1)"
    by (cases "run_minibatches ext ag (dataloader ext epoch (train_batch_size (config ag)) dataset)")
  then have t1: "total_timestep ag1 = total_timestep ag"
    using run_minibatches_timestep
      [of ext ag "dataloader ext epoch (train_batch_size (config ag)) dataset"] by simp
  show ?case
    using l t1 Cons.IH [of ag1]
    by (cases r) simp_all
qed



lemma step_policy_config: "config (snd (step_policy ext ag data)) = config ag"
  by (simp add: step_policy_def Let_def split: prod.splits option.splits)

lemma step_value_config: "config (snd (step_value ext ag data)) = config ag"
  by (simp add: step_value_def Let_def split: prod.splits)

lemma learn_one_update_config:
  "config (snd (learn_one_update ext ag data)) = config ag"
proof (cases "action_head (policy ag)")
  case None
  then show ?thesis
    by (simp add: learn_one_update_def choose_action_def Actor_forward_def Let_def)
next
  case (Some h)
  obtain r ag1 where sp: "step_policy ext ag data = (r, ag1)"
    by (cases "step_policy ext ag data")
  obtain m ag2 where sv: "step_value ext ag1 data = (m, ag2)"
    by (cases "step_value ext ag1 data")
  from sp have t1: "config ag1 = config ag"
    using step_policy_config [of ext ag data] by simp
  from sv have t2: "config ag2 = config ag1"
    using step_value_config [of ext ag1 data] by simp
  show ?thesis
    using Some sp sv t1 t2
    by (cases r)
       (simp_all add: learn_one_update_def choose_action_def Actor_forward_def Let_def)
qed

lemma run_minibatches_config:
  "config (snd (run_minibatches ext ag mbs)) = config ag"
proof (induction mbs arbitrary: ag)
  case Nil
  show ?case by simp
next
  case (Cons data rest)
  obtain r ag1 where l: "learn_one_update ext ag data = (r, ag1)"
    by (cases "learn_one_update ext ag data")
  then have t1: "config ag1 = config ag"
    using learn_one_update_config [of ext ag data] by simp
  show ?case
    using l t1 Cons.IH [of ag1]
    by (cases r) (auto split: prod.splits sum.splits)
qed

lemma epoch_loop_config:
  "config (snd (epoch_loop ext dataset ag logs epochs)) = config ag"
proof (induction epochs arbitrary: ag logs)
  case Nil
  show ?case by simp
next
  case (Cons epoch rest)
  obtain r ag1 where l: "run_minibatches ext ag
      (dataloader ext epoch (train_batch_size (config ag)) dataset) = (r, ag1)"
    by (cases "run_minibatches ext ag (dataloader ext epoch (train_batch_size (config ag)) dataset)")
  then have t1: "config ag1 = config ag"
    using run_minibatches_config
      [of ext ag "dataloader ext epoch (train_batch_size (config ag)) dataset"] by simp
  show ?case
    using l t1 Cons.IH [of ag1]
    by (cases r) simp_all
qed

lemma epoch_loop_frame:
  assumes "epoch_loop ext dataset ag logs epochs = (r, ag1)"
  shows "config ag1 = config ag \<and> total_timestep ag1 = total_timestep ag"
  using assms epoch_loop_config [of ext dataset ag logs epochs]
    epoch_loop_timestep [of ext dataset ag logs epochs] by simp

lemma learn_Inr:
  assumes "learn ext ag D = (Inr out, ag')"
  shows "total_timestep ag' = total_timestep ag + batch_len D
         \<and> map fst out = (if agent_use_lr_scheduler (config ag) then [''current_lr''] else [])
                          @ update_keys
         \<and> config ag' = config ag"
  using assms
  by (auto simp: learn_def Let_def batch_len_def update_keys_def
        split: if_splits prod.splits sum.splits option.splits dest!: epoch_loop_frame)

lemma ratio_of_same: "ratio_of xs xs = replicate (length xs) 1"
  by (induction xs) (simp_all add: ratio_of_def t_exp_def t_sub_def)

lemma sum_list_zip_map_same:
  "sum_list (map (\<lambda>(x, y). g x y) (zip (map f xs) xs)) = sum_list (map (\<lambda>y. g (f y) y) xs)"
  by (induction xs) simp_all

section \<open>The update on one minibatch\<close>

text \<open>
  C3. For every minibatch, on an agent whose actor has a head and whose distribution
  returns one log-probability per action, the update step returns, and the policy loss
  it reports is \<open>- mean (min (ratio * A) (clip ratio (1 - eps) (1 + eps) * A))\<close> with
  \<open>ratio = exp (new_logprob - old_logprob)\<close>, where \<open>new_logprob\<close> is the current
  policy's log-probability of the old action, \<open>A\<close> the precomputed advantage and
  \<open>eps\<close> the configured clip range. The clip of \<open>x\<close> to \<open>[lo, hi]\<close> is written out
  as \<open>min (max x lo) hi\<close>. The witness has a ratio above and a ratio below the clip
  band, with advantages of both signs.
\<close>

theorem policy_loss_clipped_surrogate:
  fixes ext :: collaborators and data :: "sample_row list"
  defines "new_logprob \<equiv> (\<lambda>ag h.
     log_prob (head_forward ext h (feature_layers (policy ag)) (map observation data))
       (map old_action data))"
  assumes wf: "wf_agent ag" and h: "action_head (policy ag) = Some h"
    and len: "length (new_logprob ag h) = length data" and ne: "data \<noteq> []"
  shows "\<exists>out ag'. learn_one_update ext ag data = (Inr out, ag') \<and>
           policy_loss out =
             - (sum_list (map (\<lambda>(lp, row).
                   min (exp (lp - old_logprob row) * old_A row)
                       (min (max (exp (lp - old_logprob row))
                                 (1 - agent_clip_range (config ag)))
                            (1 + agent_clip_range (config ag))
                        * old_A row))
                 (zip (new_logprob ag h) data)) / real (length data))"
proof -
  from learn_one_update_wf [OF wf h, of ext data]
  obtain out ag' where l: "learn_one_update ext ag data = (Inr out, ag')"
    and p: "policy_loss out =
      policy_loss_of (agent_clip_range (config ag))
        (ratio_of (new_logprob ag h) (map old_logprob data)) (map old_A data)"
    unfolding new_logprob_def by blast
  from p policy_loss_of_rows [OF len] l show ?thesis by (simp add: clamp_def)
qed

theorem policy_loss_clipped_surrogate_witness:
  "wf_agent demo_agent \<and> action_head (policy demo_agent) = Some (CategoricalHead 64 2)
   \<and> [(demo_row 1)\<lparr>old_logprob := - ln 2\<rparr>, (demo_row (- 1))\<lparr>old_logprob := ln 2\<rparr>] \<noteq> []
   \<and> ratio_of [0, 0]
        (map old_logprob
           [(demo_row 1)\<lparr>old_logprob := - ln 2\<rparr>, (demo_row (- 1))\<lparr>old_logprob := ln 2\<rparr>])
       = [2, 1 / 2]
   \<and> agent_clip_range (config demo_agent) = 1 / 5
   \<and> (\<exists>out ag'. learn_one_update demo_ext demo_agent
          [(demo_row 1)\<lparr>old_logprob := - ln 2\<rparr>, (demo_row (- 1))\<lparr>old_logprob := ln 2\<rparr>]
          = (Inr out, ag')
        \<and> policy_loss out = - (1 / 5))"
proof -
  let ?data = "[(demo_row 1)\<lparr>old_logprob := - ln 2\<rparr>, (demo_row (- 1))\<lparr>old_logprob := ln 2\<rparr>]"
  have wf: "wf_agent demo_agent" by (simp add: wf_agent_def demo_defs)
  have h: "action_head (policy demo_agent) = Some (CategoricalHead 64 2)"
    by (simp add: demo_defs)
  have len: "length (log_prob (head_forward demo_ext (CategoricalHead 64 2)
                 (feature_layers (policy demo_agent)) (map observation ?data))
               (map old_action ?data)) = length ?data"
    by (simp add: demo_defs)
  have ne: "?data \<noteq> []" by simp
  have r: "ratio_of [0, 0] (map old_logprob ?data) = [2, 1 / 2]"
    by (simp add: ratio_of_def t_exp_def t_sub_def exp_minus)
  have e: "agent_clip_range (config demo_agent) = 1 / 5" by (simp add: demo_defs)
  show ?thesis
    using wf h r e policy_loss_clipped_surrogate [OF wf h len ne]
    by (simp add: demo_defs exp_minus)
qed

text \<open>
  C4. For every minibatch, on a well-formed agent whose critic returns one value per
  observation, the update step returns, and the value loss it reports is
  \<open>mean (max ((V - Q)\<^sup>2) ((clip (V - old_V) (- eps) eps + old_V - Q)\<^sup>2))\<close>, where \<open>V\<close> is
  the current critic's prediction, \<open>old_V\<close> the cached value, \<open>Q\<close> the bootstrapped
  return and \<open>eps\<close> the configured clip range. The clip is written out as
  \<open>min (max x (- eps)) eps\<close>. In the witness the prediction has moved by more than
  \<open>eps\<close> in both directions, and the clipped error is the larger one.
\<close>

theorem value_loss_clipped:
  fixes ext :: collaborators and data :: "sample_row list"
  defines "V \<equiv> (\<lambda>ag. critic_forward ext (value_net ag) (map observation data))"
  assumes wf: "wf_agent ag" and len: "length (V ag) = length data" and ne: "data \<noteq> []"
  shows "\<exists>out ag'. learn_one_update ext ag data = (Inr out, ag') \<and>
           value_loss out =
             sum_list (map (\<lambda>(v, row).
                 max ((v - old_Q row)\<^sup>2)
                     ((min (max (v - old_V row) (- agent_clip_range (config ag)))
                           (agent_clip_range (config ag))
                       + old_V row - old_Q row)\<^sup>2))
               (zip (V ag) data)) / real (length data)"
proof -
  from wf obtain h where h: "action_head (policy ag) = Some h"
    by (auto simp: wf_agent_def)
  from learn_one_update_wf [OF wf h, of ext data]
  obtain out ag' where l: "learn_one_update ext ag data = (Inr out, ag')"
    and p: "value_loss out =
      value_loss_of (agent_clip_range (config ag)) (V ag) (map old_V data) (map old_Q data)"
    unfolding V_def by blast
  from p value_loss_of_rows [OF len] l show ?thesis by (simp add: clamp_def)
qed

theorem value_loss_clipped_witness:
  "wf_agent demo_agent
   \<and> [(demo_row 1)\<lparr>old_V := 1, old_Q := 0\<rparr>, (demo_row 1)\<lparr>old_V := - 1, old_Q := 2\<rparr>] \<noteq> []
   \<and> critic_forward demo_ext (value_net demo_agent)
        (map observation
           [(demo_row 1)\<lparr>old_V := 1, old_Q := 0\<rparr>, (demo_row 1)\<lparr>old_V := - 1, old_Q := 2\<rparr>])
       = [0, 0]
   \<and> agent_clip_range (config demo_agent) = 1 / 5
   \<and> (\<exists>out ag'. learn_one_update demo_ext demo_agent
          [(demo_row 1)\<lparr>old_V := 1, old_Q := 0\<rparr>, (demo_row 1)\<lparr>old_V := - 1, old_Q := 2\<rparr>]
          = (Inr out, ag')
        \<and> value_loss out = 106 / 25)"
proof -
  let ?data = "[(demo_row 1)\<lparr>old_V := 1, old_Q := 0\<rparr>, (demo_row 1)\<lparr>old_V := - 1, old_Q := 2\<rparr>]"
  have wf: "wf_agent demo_agent" by (simp add: wf_agent_def demo_defs)
  have len: "length (critic_forward demo_ext (value_net demo_agent)
               (map observation ?data)) = length ?data"
    by (simp add: demo_defs)
  have ne: "?data \<noteq> []" by simp
  have v: "critic_forward demo_ext (value_net demo_agent) (map observation ?data) = [0, 0]"
    by (simp add: demo_defs)
  have e: "agent_clip_range (config demo_agent) = 1 / 5" by (simp add: demo_defs)
  show ?thesis
    using wf v e value_loss_clipped [OF wf len ne]
    by (simp add: demo_defs power2_eq_square)
qed

text \<open>
  C7, as amended. For every minibatch whose old log-probabilities are the ones the
  current policy parameters give, the importance ratio is 1 at every timestep; when the
  clip range is not negative, the policy loss the update step reports is \<open>- mean A\<close>.
\<close>

theorem unchanged_policy_ratio_one:
  fixes ext :: collaborators and data :: "sample_row list"
  defines "new_logprob \<equiv> (\<lambda>ag h.
     log_prob (head_forward ext h (feature_layers (policy ag)) (map observation data))
       (map old_action data))"
  assumes wf: "wf_agent ag" and h: "action_head (policy ag) = Some h"
    and same: "map old_logprob data = new_logprob ag h"
    and eps: "0 \<le> agent_clip_range (config ag)" and ne: "data \<noteq> []"
  shows "ratio_of (new_logprob ag h) (map old_logprob data) = replicate (length data) 1
         \<and> (\<exists>out ag'. learn_one_update ext ag data = (Inr out, ag') \<and>
               policy_loss out = - (sum_list (map old_A data) / real (length data)))"
proof -
  have "length (map old_logprob data) = length data" by simp
  then have len: "length (new_logprob ag h) = length data"
    by (simp only: same)
  have "ratio_of (map old_logprob data) (map old_logprob data) = replicate (length data) 1"
    using ratio_of_same [of "map old_logprob data"] by simp
  then have r: "ratio_of (new_logprob ag h) (map old_logprob data) = replicate (length data) 1"
    by (simp only: same)
  from learn_one_update_wf [OF wf h, of ext data]
  obtain out ag' where l: "learn_one_update ext ag data = (Inr out, ag')"
    and p: "policy_loss out =
      policy_loss_of (agent_clip_range (config ag))
        (ratio_of (new_logprob ag h) (map old_logprob data)) (map old_A data)"
    unfolding new_logprob_def by blast
  have "policy_loss out = - (sum_list (map (\<lambda>(lp, row).
                   min (exp (lp - old_logprob row) * old_A row)
                       (clamp (exp (lp - old_logprob row))
                          (1 - agent_clip_range (config ag)) (1 + agent_clip_range (config ag))
                        * old_A row))
                 (zip (map old_logprob data) data)) / real (length data))"
    using p policy_loss_of_rows [OF len] same by simp
  also have "\<dots> = - (sum_list (map old_A data) / real (length data))"
    using eps by (simp add: sum_list_zip_map_same clamp_def)
  finally show ?thesis using r l by simp
qed

theorem unchanged_policy_ratio_one_witness:
  "wf_agent demo_agent \<and> action_head (policy demo_agent) = Some (CategoricalHead 64 2)
   \<and> 0 \<le> agent_clip_range (config demo_agent) \<and> [demo_row 2, demo_row 1] \<noteq> []
   \<and> ratio_of [0, 0] (map old_logprob [demo_row 2, demo_row 1]) = [1, 1]
   \<and> (\<exists>out ag'. learn_one_update demo_ext demo_agent [demo_row 2, demo_row 1] = (Inr out, ag')
        \<and> policy_loss out = - (3 / 2))"
proof -
  have wf: "wf_agent demo_agent" by (simp add: wf_agent_def demo_defs)
  have h: "action_head (policy demo_agent) = Some (CategoricalHead 64 2)"
    by (simp add: demo_defs)
  have same: "map old_logprob [demo_row 2, demo_row 1] =
     log_prob (head_forward demo_ext (CategoricalHead 64 2)
                 (feature_layers (policy demo_agent)) (map observation [demo_row 2, demo_row 1]))
               (map old_action [demo_row 2, demo_row 1])"
    by (simp add: demo_defs)
  have eps: "0 \<le> agent_clip_range (config demo_agent)" by (simp add: demo_defs)
  have ne: "[demo_row 2, demo_row 1] \<noteq> []" by simp
  show ?thesis
    using wf h eps unchanged_policy_ratio_one [OF wf h same eps ne]
    by (simp add: demo_defs numeral_2_eq_2)
qed

text \<open>
  The claim as stated does not ask for a clip range that is not negative: with the
  clip range \<open>- 1/2\<close> and unchanged parameters the ratio is 1, the clip of 1 to the
  bounds 3/2 and 1/2 is 1/2, and the reported loss is \<open>- 3/4\<close> where \<open>- mean A\<close> is
  \<open>- 3/2\<close>.
\<close>

theorem negative_clip_range_counterexample:
  "wf_agent (demo_agent\<lparr>config := demo_config\<lparr>agent_clip_range := - (1 / 2)\<rparr>\<rparr>)
   \<and> map old_logprob [demo_row 2, demo_row 1]
       = log_prob (head_forward demo_ext (CategoricalHead 64 2)
                     (feature_layers (policy demo_agent))
                     (map observation [demo_row 2, demo_row 1]))
           (map old_action [demo_row 2, demo_row 1])
   \<and> ratio_of [0, 0] (map old_logprob [demo_row 2, demo_row 1]) = [1, 1]
   \<and> \<not> isl (fst (learn_one_update demo_ext
         (demo_agent\<lparr>config := demo_config\<lparr>agent_clip_range := - (1 / 2)\<rparr>\<rparr>)
         [demo_row 2, demo_row 1]))
   \<and> policy_loss (projr (fst (learn_one_update demo_ext
         (demo_agent\<lparr>config := demo_config\<lparr>agent_clip_range := - (1 / 2)\<rparr>\<rparr>)
         [demo_row 2, demo_row 1]))) = - (3 / 4)
   \<and> - (sum_list (map old_A [demo_row 2, demo_row 1])
          / real (length [demo_row 2, demo_row 1])) = - (3 / 2)"
  by (simp add: wf_agent_def tensor_defs model_defs demo_defs Let_def)

section \<open>The epoch driver: facts\<close>

lemma length_concat_steps:
  "int (length (concat (map (\<lambda>traj. map f (steps traj)) D))) = batch_len D"
  by (induction D) (simp_all add: batch_len_def)

lemma flat_metrics_lengths:
  assumes "flat_metrics ext ag D = (logprobs, entropies, Vs, Qs, As)"
  shows "int (length logprobs) = batch_len D \<and> int (length entropies) = batch_len D
         \<and> int (length Vs) = batch_len D"
  using assms by (auto simp: flat_metrics_def Let_def length_concat_steps)

lemma ndimension_squeezed_1:
  assumes "int (length xs) = n" and "n \<noteq> 1"
  shows "ndimension_squeezed xs = 1"
  using assms by (auto simp: ndimension_squeezed_def)


lemma learn_no_epoch:
  assumes "train_num_epochs (config ag) \<le> 0"
  shows "isl (fst (learn ext ag D))"
  using assms
  by (auto simp: learn_def Let_def split: prod.splits option.splits)

lemma learn_no_epoch_unbound:
  assumes ep: "train_num_epochs (config ag) \<le> 0" and wf: "wf_agent ag" and ok: "batch_ok D"
    and bs: "0 < train_batch_size (config ag)"
  shows "fst (learn ext ag D) = Inl UnboundLocalError"
proof -
  obtain logprobs entropies Vs Qs As where
    fm: "flat_metrics ext ag D = (logprobs, entropies, Vs, Qs, As)"
    by (metis prod_cases5)
  from ok have n1: "batch_len D \<noteq> 1" by (simp add: batch_ok_def)
  from flat_metrics_lengths [OF fm] have nd:
    "ndimension_squeezed logprobs = 1" "ndimension_squeezed entropies = 1"
    "ndimension_squeezed Vs = 1"
    using n1 by (blast intro: ndimension_squeezed_1)+
  show ?thesis
    using ok bs fm nd ep wf
    by (auto simp: learn_def batch_ok_def wf_agent_def Let_def split: option.splits)
qed

lemma learn_calls_timestep:
  assumes "learn_calls ext ag Ds = (rs, ag')" and "list_all (\<lambda>r. \<not> isl r) rs"
  shows "total_timestep ag' = total_timestep ag + sum_list (map batch_len Ds)"
  using assms
proof (induction Ds arbitrary: ag rs ag')
  case Nil
  then show ?case by simp
next
  case (Cons D Ds)
  obtain r ag1 where l: "learn ext ag D = (r, ag1)" by (cases "learn ext ag D")
  obtain rs1 ag2 where ls: "learn_calls ext ag1 Ds = (rs1, ag2)"
    by (cases "learn_calls ext ag1 Ds")
  from Cons.prems l ls have rs: "rs = r # rs1" and ag': "ag' = ag2" by simp_all
  from Cons.prems(2) rs obtain out where r: "r = Inr out" and all: "list_all (\<lambda>r. \<not> isl r) rs1"
    by (cases r) simp_all
  from learn_Inr [of ext ag D out ag1] l r
  have t1: "total_timestep ag1 = total_timestep ag + batch_len D" by simp
  from Cons.IH [OF ls all] t1 ag' show ?case by simp
qed

section \<open>The total-timestep counter\<close>

text \<open>
  C5. The counter of a freshly constructed agent is 0. After any number of calls of
  \<open>learn\<close> that return, on batches of total lengths \<open>L1, ..., LN\<close>, it is their sum,
  whatever the minibatch size and the number of epochs of the configuration are; the
  loop over epochs and minibatches leaves it as it is, so that it moves once in a call.
\<close>

theorem total_timestep_running_sum:
  assumes init: "Agent_init cfg e w_policy w_value = Inr ag0"
    and calls: "learn_calls ext ag0 Ds = (rs, ag)"
    and ok: "list_all (\<lambda>r. \<not> isl r) rs"
  shows "total_timestep ag0 = 0
         \<and> total_timestep ag = sum_list (map batch_len Ds)
         \<and> total_timestep (snd (epoch_loop ext dataset a logs epochs)) = total_timestep a"
proof -
  from init have z: "total_timestep ag0 = 0"
    by (auto simp: Agent_init_def split: sum.splits)
  from learn_calls_timestep [OF calls ok] z
  have "total_timestep ag = sum_list (map batch_len Ds)" by simp
  with z epoch_loop_timestep [of ext dataset a logs epochs] show ?thesis by simp
qed

lemma demo_learn_1: "\<not> isl (fst (learn demo_ext demo_agent [demo_traj]))"
  by (simp add: tensor_defs model_defs demo_defs Let_def upt_conv_Cons)

theorem total_timestep_running_sum_witness:
  "Agent_init demo_config demo_env [1] [0] = Inr demo_agent
   \<and> list_all (\<lambda>r. \<not> isl r)
        (fst (learn_calls demo_ext demo_agent [[demo_traj], [demo_traj, demo_traj]]))
   \<and> total_timestep demo_agent = 0
   \<and> total_timestep (snd (learn_calls demo_ext demo_agent [[demo_traj], [demo_traj, demo_traj]]))
       = 6"
proof -
  have init: "Agent_init demo_config demo_env [1] [0] = Inr demo_agent"
    by (simp add: Agent_init_def Actor_init_def Critic_init_def demo_defs)
  have calls: "learn_calls demo_ext demo_agent [[demo_traj], [demo_traj, demo_traj]] =
      (fst (learn_calls demo_ext demo_agent [[demo_traj], [demo_traj, demo_traj]]),
       snd (learn_calls demo_ext demo_agent [[demo_traj], [demo_traj, demo_traj]]))"
    by simp
  have ok: "list_all (\<lambda>r. \<not> isl r)
        (fst (learn_calls demo_ext demo_agent [[demo_traj], [demo_traj, demo_traj]]))"
    by (simp add: tensor_defs model_defs demo_defs Let_def upt_conv_Cons split_beta)
  have len: "sum_list (map batch_len [[demo_traj], [demo_traj, demo_traj]]) = 6"
    by (simp add: batch_len_def demo_defs)
  show ?thesis
    using init ok len total_timestep_running_sum [OF init calls ok]
    by simp
qed

section \<open>Action selection\<close>

text \<open>
  C8. For every observation, on an agent whose actor has an action head,
  \<open>choose_action\<close> returns and leaves the agent as it was: the parameters of both
  networks, the state of both optimizers, the scheduler and the total-timestep counter
  are the same before and after the call. The mapping it returns has exactly the keys
  \<open>action_dist\<close>, \<open>entropy\<close>, \<open>action\<close>, \<open>raw_action\<close>, \<open>action_logprob\<close> and
  \<open>V\<close>.
\<close>

theorem choose_action_frame_and_keys:
  assumes h: "action_head (policy ag) = Some h"
  shows "\<exists>out ag'. choose_action ext ag obs = (Inr out, ag')
           \<and> policy ag' = policy ag \<and> value_net ag' = value_net ag
           \<and> policy_optimizer ag' = policy_optimizer ag
           \<and> value_optimizer ag' = value_optimizer ag
           \<and> policy_lr_scheduler ag' = policy_lr_scheduler ag
           \<and> total_timestep ag' = total_timestep ag \<and> ag' = ag
           \<and> map fst out = [''action_dist'', ''entropy'', ''action'', ''raw_action'',
                              ''action_logprob'', ''V'']"
proof -
  obtain r ag' where c: "choose_action ext ag obs = (r, ag')"
    by (cases "choose_action ext ag obs")
  from c choose_action_frame [of ext ag obs] have same: "ag' = ag" by simp
  from c choose_action_head [OF h, of ext obs] have
    "\<exists>out. r = Inr out \<and> map fst out = [''action_dist'', ''entropy'', ''action'',
        ''raw_action'', ''action_logprob'', ''V'']"
    by (simp add: Let_def)
  with c same show ?thesis by auto
qed

theorem choose_action_frame_and_keys_witness:
  "action_head (policy demo_agent) = Some (CategoricalHead 64 2)
   \<and> (\<exists>out. choose_action demo_ext demo_agent [[0, 0, 0, 0]] = (Inr out, demo_agent)
         \<and> map fst out = [''action_dist'', ''entropy'', ''action'', ''raw_action'',
                            ''action_logprob'', ''V''])"
proof -
  have h: "action_head (policy demo_agent) = Some (CategoricalHead 64 2)"
    by (simp add: demo_defs)
  show ?thesis
    using h choose_action_frame_and_keys [OF h, of demo_ext "[[0, 0, 0, 0]]"]
    by auto
qed

section \<open>The number of epochs\<close>

text \<open>
  C10. When the configured number of epochs is 0 (or negative), the body of the epoch
  loop never runs and \<open>logs\<close> stays unbound, so that \<open>learn\<close> raises an error for every
  batch instead of returning diagnostics; on a well-formed agent and an accepted batch
  the error is the one of reading the unbound variable. Hence \<open>learn\<close> returns only
  when the number of epochs is at least 1.
\<close>

theorem learn_without_epoch_raises:
  assumes ep: "train_num_epochs (config ag) \<le> 0"
  shows "(\<exists>err. fst (learn ext ag D) = Inl err)
         \<and> epoch_loop ext dataset ag None [0 ..< nat (train_num_epochs (config ag))]
             = (Inr None, ag)
         \<and> (if wf_agent ag \<and> batch_ok D \<and> 0 < train_batch_size (config ag)
             then fst (learn ext ag D) = Inl UnboundLocalError else True)"
proof -
  from learn_no_epoch [OF ep, of ext D] have "\<exists>err. fst (learn ext ag D) = Inl err"
    by (cases "fst (learn ext ag D)") simp_all
  moreover from ep have
    "epoch_loop ext dataset ag None [0 ..< nat (train_num_epochs (config ag))] = (Inr None, ag)"
    by simp
  moreover have "fst (learn ext ag D) = Inl UnboundLocalError"
    if "wf_agent ag" "batch_ok D" "0 < train_batch_size (config ag)"
    using learn_no_epoch_unbound [OF ep that] .
  ultimately show ?thesis by simp
qed

theorem learn_without_epoch_raises_witness:
  "train_num_epochs (config (demo_agent\<lparr>config := demo_config\<lparr>train_num_epochs := 0\<rparr>\<rparr>)) \<le> 0
   \<and> wf_agent (demo_agent\<lparr>config := demo_config\<lparr>train_num_epochs := 0\<rparr>\<rparr>)
   \<and> batch_ok [demo_traj]
   \<and> fst (learn demo_ext (demo_agent\<lparr>config := demo_config\<lparr>train_num_epochs := 0\<rparr>\<rparr>)
             [demo_traj]) = Inl UnboundLocalError"
proof -
  let ?ag = "demo_agent\<lparr>config := demo_config\<lparr>train_num_epochs := 0\<rparr>\<rparr>"
  have ep: "train_num_epochs (config ?ag) \<le> 0" by simp
  have wf: "wf_agent ?ag" by (simp add: wf_agent_def demo_defs)
  have ok: "batch_ok [demo_traj]" by (simp add: batch_ok_def batch_len_def demo_defs)
  have bs: "0 < train_batch_size (config ?ag)" by (simp add: demo_defs)
  show ?thesis
    using ep wf ok bs learn_without_epoch_raises [OF ep, of demo_ext "[demo_traj]" "[]"]
    by simp
qed

section \<open>Unsupported action spaces\<close>

text \<open>
  C2. The claim: for an action space that is neither Discrete nor Box, constructing an
  Actor raises a configuration error. The constructor has two branches and no third:
  on a MultiDiscrete space it returns an actor without action head, and the error comes
  with the first forward pass, when the missing attribute is read.
\<close>

theorem Actor_init_unsupported_space:
  "Actor_init demo_config \<lparr>observation_dim = 4, action_space = MultiDiscrete [2, 3]\<rparr> [1]
     = Inr \<lparr>feature_layers = [1], action_head = None\<rparr>
   \<and> Actor_forward demo_ext \<lparr>feature_layers = [1], action_head = None\<rparr> [[0, 0, 0, 0]]
     = Inl AttributeError"
  by (simp add: Actor_init_def Actor_forward_def demo_defs)

section \<open>The aggregated diagnostics\<close>

text \<open>
  C1. The claim: every aggregated diagnostic \<open>learn\<close> returns is the mean of that
  diagnostic over every minibatch invocation of every epoch of the call. Each epoch
  assigns \<open>logs\<close> anew, so that the means are taken over the last epoch only: with two
  epochs of one minibatch each, whose gradient norms are 1 and 1/2, \<open>learn\<close> reports
  1/2, and the mean over every invocation is 3/4.
\<close>

theorem learn_aggregates_last_epoch_only:
  "train_num_epochs (config demo_agent) = 2
   \<and> map_of (projr (fst (learn demo_ext demo_agent [demo_traj]))) ''policy_grad_norm''
       = Some (Num (1 / 2))
   \<and> map policy_grad_norm
        (every_invocation demo_ext (flat_table demo_ext demo_agent [demo_traj])
           demo_agent [0 ..< 2]) = [1, 1 / 2]
   \<and> np_mean [1, 1 / 2] = 3 / 4"
  by (simp add: tensor_defs model_defs demo_defs Let_def upt_conv_Cons)









section \<open>Advantage standardization\<close>

lemma sum_list_div_const:
  "sum_list (map (\<lambda>x. f x / c) xs) = sum_list (map f xs) / (c::real)"
  by (induction xs) (simp_all add: add_divide_distrib)

lemma sum_list_sub_const:
  "sum_list (map (\<lambda>x. x - m) xs) = sum_list xs - real (length xs) * (m::real)"
  by (induction xs) (simp_all add: algebra_simps)

lemma t_std_nonneg:
  assumes "1 \<le> length xs"
  shows "0 \<le> t_std xs"
proof -
  have "0 \<le> sum_list (map (\<lambda>x. (x - t_mean xs)\<^sup>2) xs)"
    by (rule sum_list_nonneg) auto
  moreover from assms have "0 \<le> real (length xs) - 1" by simp
  ultimately show ?thesis by (simp add: t_std_def)
qed

lemma standardize_mean:
  assumes "1 \<le> length xs"
  shows "t_mean (standardize xs) = 0"
proof -
  from assms have n: "real (length xs) \<noteq> 0" by auto
  have "sum_list (map (\<lambda>x. x - t_mean xs) xs) = 0"
    using n by (simp add: sum_list_sub_const t_mean_def)
  then have "sum_list (standardize xs) = 0"
    by (simp add: standardize_def t_div_scalar_def t_sub_scalar_def comp_def
          sum_list_div_const [where f = "\<lambda>x. x - t_mean xs"])
  then show ?thesis by (simp add: t_mean_def)
qed

lemma standardize_std:
  assumes "1 \<le> length xs"
  shows "t_std (standardize xs) = t_std xs / (t_std xs + 1 / 10 ^ 8)"
proof -
  define c where "c = t_std xs + 1 / 10 ^ 8"
  have cpos: "0 < c" using t_std_nonneg [OF assms] by (simp add: c_def)
  have st: "standardize xs = map (\<lambda>x. (x - t_mean xs) / c) xs"
    by (simp add: standardize_def t_div_scalar_def t_sub_scalar_def c_def)
  have m0: "t_mean (map (\<lambda>x. (x - t_mean xs) / c) xs) = 0"
    using standardize_mean [OF assms] st by simp
  have "sum_list (map (\<lambda>y. (y - 0)\<^sup>2) (map (\<lambda>x. (x - t_mean xs) / c) xs))
        = sum_list (map (\<lambda>x. (x - t_mean xs)\<^sup>2 / c\<^sup>2) xs)"
    by (simp add: comp_def power_divide)
  also have "\<dots> = sum_list (map (\<lambda>x. (x - t_mean xs)\<^sup>2) xs) / c\<^sup>2"
    by (rule sum_list_div_const)
  finally have s: "sum_list (map (\<lambda>y. (y - 0)\<^sup>2) (map (\<lambda>x. (x - t_mean xs) / c) xs))
        = sum_list (map (\<lambda>x. (x - t_mean xs)\<^sup>2) xs) / c\<^sup>2" .
  have "t_std (standardize xs)
        = sqrt (sum_list (map (\<lambda>x. (x - t_mean xs)\<^sup>2) xs) / c\<^sup>2 / (real (length xs) - 1))"
    unfolding st t_std_def [of "map (\<lambda>x. (x - t_mean xs) / c) xs"] m0 s by simp
  also have "\<dots> = sqrt (sum_list (map (\<lambda>x. (x - t_mean xs)\<^sup>2) xs) / (real (length xs) - 1) / c\<^sup>2)"
    by (simp add: field_simps)
  also have "\<dots> = sqrt (sum_list (map (\<lambda>x. (x - t_mean xs)\<^sup>2) xs) / (real (length xs) - 1))
                   / sqrt (c\<^sup>2)"
    by (rule real_sqrt_divide)
  also have "\<dots> = t_std xs / c"
    using cpos by (simp add: t_std_def)
  finally show ?thesis by (simp add: c_def)
qed

text \<open>
  C6, as amended. When advantage standardization is enabled, \<open>learn\<close> normalizes the
  advantages of the whole flattened batch, concatenated over the trajectories, by
  \<open>A \<mapsto> (A - mean A) / (std A + 1e-8)\<close>. For a batch of at least two timesteps the
  standardized batch has mean 0, and its standard deviation is
  \<open>std A / (std A + 1e-8)\<close>, which is below 1 by \<open>1e-8 / (std A + 1e-8)\<close>: close to 1
  when \<open>std A\<close> is large against \<open>1e-8\<close>, and 0 when all advantages are equal. With the
  flag disabled the advantages are left as they are.
\<close>

theorem advantage_standardization:
  assumes flag: "agent_standardize_adv (config ag)"
    and len: "2 \<le> length (raw_advantages ext ag D)"
  shows "flat_advantages ext ag D = standardize (raw_advantages ext ag D)
         \<and> snd (snd (snd (snd (flat_metrics ext ag D)))) = flat_advantages ext ag D
         \<and> t_mean (flat_advantages ext ag D) = 0
         \<and> t_std (flat_advantages ext ag D)
             = t_std (raw_advantages ext ag D) / (t_std (raw_advantages ext ag D) + 1 / 10 ^ 8)
         \<and> 1 - t_std (flat_advantages ext ag D)
             = (1 / 10 ^ 8) / (t_std (raw_advantages ext ag D) + 1 / 10 ^ 8)
         \<and> flat_advantages ext (ag\<lparr>config := (config ag)\<lparr>agent_standardize_adv := False\<rparr>\<rparr>) D
             = raw_advantages ext ag D"
proof -
  from len have one: "1 \<le> length (raw_advantages ext ag D)" by simp
  have f: "flat_advantages ext ag D = standardize (raw_advantages ext ag D)"
    using flag by (simp add: flat_advantages_def)
  have m: "snd (snd (snd (snd (flat_metrics ext ag D)))) = flat_advantages ext ag D"
    by (simp add: flat_metrics_def Let_def)
  have s: "t_std (flat_advantages ext ag D)
             = t_std (raw_advantages ext ag D) / (t_std (raw_advantages ext ag D) + 1 / 10 ^ 8)"
    using standardize_std [OF one] f by simp
  have pos: "0 < t_std (raw_advantages ext ag D) + 1 / 10 ^ 8"
    using t_std_nonneg [OF one] by simp
  have d: "1 - t_std (flat_advantages ext ag D)
             = (1 / 10 ^ 8) / (t_std (raw_advantages ext ag D) + 1 / 10 ^ 8)"
    unfolding s using pos by (simp add: field_simps)
  have off: "flat_advantages ext (ag\<lparr>config := (config ag)\<lparr>agent_standardize_adv := False\<rparr>\<rparr>) D
             = raw_advantages ext ag D"
    by (simp add: flat_advantages_def raw_advantages_def)
  from f m s d off standardize_mean [OF one] show ?thesis by simp
qed

theorem advantage_standardization_witness:
  "agent_standardize_adv
     (config (demo_agent\<lparr>config := demo_config\<lparr>agent_standardize_adv := True\<rparr>\<rparr>))
   \<and> raw_advantages demo_ext
       (demo_agent\<lparr>config := demo_config\<lparr>agent_standardize_adv := True\<rparr>\<rparr>) [demo_traj] = [2, 1]
   \<and> t_mean (flat_advantages demo_ext
       (demo_agent\<lparr>config := demo_config\<lparr>agent_standardize_adv := True\<rparr>\<rparr>) [demo_traj]) = 0
   \<and> t_std (flat_advantages demo_ext
       (demo_agent\<lparr>config := demo_config\<lparr>agent_standardize_adv := True\<rparr>\<rparr>) [demo_traj])
       = t_std [2, 1] / (t_std [2, 1] + 1 / 10 ^ 8)"
proof -
  let ?ag = "demo_agent\<lparr>config := demo_config\<lparr>agent_standardize_adv := True\<rparr>\<rparr>"
  have flag: "agent_standardize_adv (config ?ag)" by simp
  have raw: "raw_advantages demo_ext ?ag [demo_traj] = [2, 1]"
    by (simp add: raw_advantages_def demo_defs t_sub_def)
  have len: "2 \<le> length (raw_advantages demo_ext ?ag [demo_traj])"
    by (simp only: raw) simp
  note th = advantage_standardization [OF flag len]
  from th have m: "t_mean (flat_advantages demo_ext ?ag [demo_traj]) = 0" by blast
  from th have "t_std (flat_advantages demo_ext ?ag [demo_traj])
       = t_std (raw_advantages demo_ext ?ag [demo_traj])
         / (t_std (raw_advantages demo_ext ?ag [demo_traj]) + 1 / 10 ^ 8)" by blast
  then have s: "t_std (flat_advantages demo_ext ?ag [demo_traj])
       = t_std [2, 1] / (t_std [2, 1] + 1 / 10 ^ 8)"
    by (simp only: raw)
  from flag raw m s show ?thesis by blast
qed

text \<open>
  The claim as stated asks for a standard deviation within epsilon of 1: two steps of
  reward 1 with discount 0 and values 0 have the advantages \<open>[1, 1]\<close>, which the
  standardization turns into \<open>[0, 0]\<close>, of standard deviation 0.
\<close>

theorem standardized_std_counterexample:
  "agent_standardize_adv
     (config (demo_agent\<lparr>config := demo_config\<lparr>agent_gamma := 0,
                                                  agent_standardize_adv := True\<rparr>\<rparr>))
   \<and> raw_advantages demo_ext
       (demo_agent\<lparr>config := demo_config\<lparr>agent_gamma := 0,
                                             agent_standardize_adv := True\<rparr>\<rparr>) [demo_traj] = [1, 1]
   \<and> flat_advantages demo_ext
       (demo_agent\<lparr>config := demo_config\<lparr>agent_gamma := 0,
                                             agent_standardize_adv := True\<rparr>\<rparr>) [demo_traj] = [0, 0]
   \<and> t_std (flat_advantages demo_ext
       (demo_agent\<lparr>config := demo_config\<lparr>agent_gamma := 0,
                                             agent_standardize_adv := True\<rparr>\<rparr>) [demo_traj]) = 0"
proof -
  let ?ag = "demo_agent\<lparr>config := demo_config\<lparr>agent_gamma := 0,
                                                 agent_standardize_adv := True\<rparr>\<rparr>"
  have raw: "raw_advantages demo_ext ?ag [demo_traj] = [1, 1]"
    by (simp add: raw_advantages_def demo_defs t_sub_def)
  have s0: "t_std [1, 1] = 0" by (simp add: t_std_def t_mean_def)
  have flat: "flat_advantages demo_ext ?ag [demo_traj] = [0, 0]"
    by (simp add: flat_advantages_def raw standardize_def s0 t_div_scalar_def t_sub_scalar_def
          t_mean_def)
  have "t_std [0, 0] = 0" by (simp add: t_std_def t_mean_def)
  with raw flat show ?thesis by simp
qed

end
